theory Spec2Isabelle
  imports Complex_Main "HOL-Library.Product_Lexorder" "HOL-Library.List_Lexorder"
begin

chapter \<open>The model\<close>

section \<open>Python exceptions as values\<close>

text \<open>
  The exceptions the modelled code can raise. A function that may raise returns
  \<open>exn + 'a\<close>, with \<open>Inl\<close> for the exception.
\<close>

datatype exn = IndexError | ValueError | KeyError | AttributeError | ZeroDivisionError

section \<open>builtin\_modules/passthrough.py\<close>

subsection \<open>The part of numpy the module uses\<close>

text \<open>
  An array is its shape and its elements in row-major order. \<open>np.array([])\<close> is the
  one-dimensional array of length 0; \<open>reshape\<close> keeps the elements and raises
  ValueError unless the new shape holds as many elements as the array has;
  \<open>X.shape[0]\<close> raises IndexError on a zero-dimensional array.
\<close>

record 'a ndarray =
  shape :: "nat list"
  elems :: "'a list"

definition np_array :: "'a list \<Rightarrow> 'a ndarray" where
  "np_array xs = \<lparr>shape = [length xs], elems = xs\<rparr>"

definition reshape :: "'a ndarray \<Rightarrow> nat list \<Rightarrow> exn + 'a ndarray" where
  "reshape a new_shape =
     (if prod_list new_shape = length (elems a)
      then Inr \<lparr>shape = new_shape, elems = elems a\<rparr>
      else Inl ValueError)"

definition shape0 :: "'a ndarray \<Rightarrow> exn + nat" where
  "shape0 X = (case shape X of [] \<Rightarrow> Inl IndexError | n # _ \<Rightarrow> Inr n)"

subsection \<open>Passthrough\<close>

text \<open>
  Neither class has attributes of its own, so \<open>self\<close> is any value \<open>'s\<close>; a method
  that returns \<open>self\<close> returns that value. The arguments \<open>X\<close> and \<open>y\<close> of \<open>fit\<close>
  default to None.
\<close>

definition Passthrough_fit :: "'s \<Rightarrow> 'x option \<Rightarrow> 'y option \<Rightarrow> 's" where
  "Passthrough_fit self X y = self"

definition Passthrough_transform :: "'s \<Rightarrow> 'x \<Rightarrow> 'x" where
  "Passthrough_transform self X = X"

subsection \<open>SkipTransformer\<close>

definition SkipTransformer_fit :: "'s \<Rightarrow> 'x option \<Rightarrow> 'y option \<Rightarrow> 's" where
  "SkipTransformer_fit self X y = self"

definition SkipTransformer_transform :: "'s \<Rightarrow> 'a ndarray \<Rightarrow> exn + real ndarray" where
  "SkipTransformer_transform self X =
     (case shape0 X of
        Inl e \<Rightarrow> Inl e
      | Inr n \<Rightarrow> reshape (np_array []) [n, 0])"

section \<open>tpot\_estimator/steady\_state\_estimator.py: the table of evaluated individuals\<close>

text \<open>
  \<open>evaluated_individuals\<close> is a pandas data frame with one row per evaluated
  individual. A cell of an objective column, of a validation column or of the
  \<open>Pareto_Front\<close> column is a number, the missing value NaN, or one of the two failure
  markers, the strings "TIMEOUT" and "INVALID". The \<open>Individual\<close> column holds the
  individual itself. The object-valued columns Parents, Variation\_Function and Instance
  are not modelled. After \<open>make_evaluated_individuals\<close> the row labels are
  \<open>0, 1, \<dots>\<close> in row order, so a row is addressed by its position.
  A cell that was never written reads as NaN, as in pandas.
\<close>

datatype cell = Score real | NaN | TIMEOUT | INVALID

record 'ind row =
  Individual :: 'ind
  cells :: "string \<rightharpoonup> cell"

record 'ind frame =
  columns :: "string list"
  rows :: "'ind row list"

definition cell_at :: "'ind row \<Rightarrow> string \<Rightarrow> cell" where
  "cell_at r c = (case cells r c of None \<Rightarrow> NaN | Some v \<Rightarrow> v)"

subsection \<open>The property \<open>pareto_front\<close> (lines 1039-1048)\<close>

text \<open>
  The property reads \<open>self.evaluated_individuals\<close> only, which is the argument here
  (None before the first \<open>fit\<close>). The comparison \<open>== 1\<close> is false on NaN and on
  the marker strings.
\<close>

definition pareto_front :: "'ind frame option \<Rightarrow> 'ind frame option" where
  "pareto_front evaluated_individuals =
     (case evaluated_individuals of
        None \<Rightarrow> None
      | Some df \<Rightarrow>
          if ''Pareto_Front'' \<notin> set (columns df) then Some df
          else Some (df\<lparr>rows := filter (\<lambda>r. cell_at r ''Pareto_Front'' = Score 1) (rows df)\<rparr>))"

section \<open>tpot\_estimator/steady\_state\_estimator.py: construction (lines 443-559)\<close>

text \<open>
  The constructor arguments the model keeps. \<open>scorers\<close> is one scorer (a name or a
  callable) or a list of them; a tolerance argument is one value or a list
  (\<open>isinstance(_, list)\<close>), each value a float or None.
\<close>

datatype 'sc scorers_arg = OneScorer 'sc | Scorers "'sc list"

datatype 'a scalar_or_list = Scalar 'a | ListOf "'a list"

record ('sc, 'f) params =
  scorers :: "'sc scorers_arg"
  scorers_weights :: "real list"
  other_objective_functions :: "'f list"
  other_objective_functions_weights :: "real list"
  objective_function_names :: "string list option"
  bigger_is_better :: bool
  validation_strategy :: string
  initial_population_size :: "int option"
  population_size :: int
  max_evaluated_individuals :: "int option"
  early_stop :: "int option"
  early_stop_mins :: "real option"
  scorers_early_stop_tol :: "real option scalar_or_list"
  other_objectives_early_stop_tol :: "real option scalar_or_list"
  crossover_probability :: real
  mutate_probability :: real
  mutate_then_crossover_probability :: real
  crossover_then_mutate_probability :: real
  budget_range :: "(real \<times> real) option"
  budget_scaling :: real
  individuals_until_end_budget :: int
  stepwise_steps :: int
  warm_start :: bool
  random_state :: "int option"

text \<open>
  What the constructor and \<open>fit\<close> call outside this file, each with None where the
  call raises: sklearn's \<open>get_scorer\<close> (ValueError on an unknown scorer), the name
  of a scorer and the \<open>__name__\<close> of an objective function (AttributeError on a
  callable that has none, such as a \<open>functools.partial\<close>), and numpy's
  \<open>default_rng\<close> (ValueError on a seed it does not accept, such as a negative
  integer). The evolver class of \<open>tpot.evolvers\<close> is not among the sources: its
  constructor, its method \<open>optimize\<close>, which draws from the generator it was given,
  and its table \<open>population.evaluated_individuals\<close> are taken as given.
\<close>

record ('sc, 'f) evolver_args =
  ev_objective_function_weights :: "real list"
  ev_objective_names :: "string list"
  ev_initial_population_size :: int
  ev_early_stop_tol :: "real option list"
  ev_params :: "('sc, 'f) params"

record ('sc, 'scorer, 'f, 'rng, 'ev, 'ind) env =
  get_scorer :: "'sc \<Rightarrow> 'scorer option"
  scorer_name :: "'scorer \<Rightarrow> string option"
  function_name :: "'f \<Rightarrow> string option"
  default_rng :: "int option \<Rightarrow> 'rng option"
  new_evolver :: "('sc, 'f) evolver_args \<Rightarrow> 'ev"
  optimize :: "'ev \<Rightarrow> 'rng \<Rightarrow> 'ev \<times> 'rng"
  population_evaluated_individuals :: "'ev \<Rightarrow> 'ind frame"

text \<open>
  The attributes of the estimator. \<open>priv_x\<close> stands for the attribute \<open>_x\<close>. The
  generator \<open>rng\<close> is one object shared with every evolver the estimator constructs,
  so its state is kept here and threaded through \<open>optimize\<close>.
\<close>

record ('sc, 'scorer, 'f, 'rng, 'ev, 'ind) estimator =
  params :: "('sc, 'f) params"
  rng :: 'rng
  priv_initial_population_size :: int
  priv_scorers :: "'scorer list"
  objective_function_weights :: "real list"
  objective_names :: "string list"
  early_stop_tol :: "real option list"
  priv_evolver_instance :: "'ev option"
  evaluated_individuals :: "'ind frame option"

definition scorer_list :: "'sc scorers_arg \<Rightarrow> 'sc list" where
  "scorer_list a = (case a of OneScorer s \<Rightarrow> [s] | Scorers ss \<Rightarrow> ss)"

fun get_scorers :: "('sc \<Rightarrow> 'scorer option) \<Rightarrow> 'sc list \<Rightarrow> exn + 'scorer list" where
  "get_scorers g [] = Inr []"
| "get_scorers g (s # ss) =
     (case g s of
        None \<Rightarrow> Inl ValueError
      | Some f \<Rightarrow> (case get_scorers g ss of Inl e \<Rightarrow> Inl e | Inr fs \<Rightarrow> Inr (f # fs)))"

fun names_of :: "('a \<Rightarrow> string option) \<Rightarrow> 'a list \<Rightarrow> exn + string list" where
  "names_of name [] = Inr []"
| "names_of name (f # fs) =
     (case name f of
        None \<Rightarrow> Inl AttributeError
      | Some n \<Rightarrow> (case names_of name fs of Inl e \<Rightarrow> Inl e | Inr ns \<Rightarrow> Inr (n # ns)))"

definition tol_list :: "'a scalar_or_list \<Rightarrow> nat \<Rightarrow> 'a list" where
  "tol_list t n = (case t of Scalar v \<Rightarrow> replicate n v | ListOf vs \<Rightarrow> vs)"

text \<open>
  The constructor, with its raising calls in the order of the source: \<open>default_rng\<close>
  (line 504), \<open>get_scorer\<close> (line 525), the names of the other objective functions,
  read only when \<open>objective_function_names\<close> is None (line 536), and the names of
  the scorers (line 539). Nothing else in lines 443-559 raises on arguments of the
  types above.
\<close>

definition TPOTEstimatorSteadyState_init ::
  "('sc, 'scorer, 'f, 'rng, 'ev, 'ind) env \<Rightarrow> ('sc, 'f) params
    \<Rightarrow> exn + ('sc, 'scorer, 'f, 'rng, 'ev, 'ind) estimator" where
  "TPOTEstimatorSteadyState_init E p =
     (case default_rng E (random_state p) of
        None \<Rightarrow> Inl ValueError
      | Some generator \<Rightarrow>
     (case get_scorers (get_scorer E) (scorer_list (scorers p)) of
        Inl e \<Rightarrow> Inl e
      | Inr ss \<Rightarrow>
     (case (case objective_function_names p of
              None \<Rightarrow> names_of (function_name E) (other_objective_functions p)
            | Some names \<Rightarrow> Inr names) of
        Inl e \<Rightarrow> Inl e
      | Inr obj_names \<Rightarrow>
     (case names_of (scorer_name E) ss of
        Inl e \<Rightarrow> Inl e
      | Inr scorer_names \<Rightarrow>
          Inr \<lparr>params = p,
               rng = generator,
               priv_initial_population_size =
                 (case initial_population_size p of
                    None \<Rightarrow> population_size p
                  | Some n \<Rightarrow> n),
               priv_scorers = ss,
               objective_function_weights =
                 scorers_weights p @ other_objective_functions_weights p,
               objective_names = scorer_names @ obj_names,
               early_stop_tol =
                 tol_list (scorers_early_stop_tol p) (length ss) @
                 tol_list (other_objectives_early_stop_tol p)
                   (length (other_objective_functions p)),
               priv_evolver_instance = None,
               evaluated_individuals = None\<rparr>))))"

definition raises :: "exn + 'a \<Rightarrow> bool" where
  "raises r = (case r of Inl _ \<Rightarrow> True | Inr _ \<Rightarrow> False)"

section \<open>tpot\_estimator/steady\_state\_estimator.py: \<open>fit\<close>, the search (lines 586 and 728-777)\<close>

text \<open>
  The part of \<open>fit\<close> that decides which evolver runs: the table is set to None, the
  evolver is constructed anew unless \<open>warm_start\<close> is set and an instance exists,
  \<open>optimize\<close> runs on it, and \<open>make_evaluated_individuals\<close> copies its table.
  The cluster set-up, the label encoding, the preprocessing and the validation split
  before it are not modelled.
\<close>

definition evolver_args_of ::
  "('sc, 'scorer, 'f, 'rng, 'ev, 'ind) estimator \<Rightarrow> ('sc, 'f) evolver_args" where
  "evolver_args_of self =
     \<lparr>ev_objective_function_weights = objective_function_weights self,
      ev_objective_names = objective_names self,
      ev_initial_population_size = priv_initial_population_size self,
      ev_early_stop_tol = early_stop_tol self,
      ev_params = params self\<rparr>"

definition make_evaluated_individuals ::
  "('sc, 'scorer, 'f, 'rng, 'ev, 'ind) env \<Rightarrow> ('sc, 'scorer, 'f, 'rng, 'ev, 'ind) estimator
    \<Rightarrow> exn + ('sc, 'scorer, 'f, 'rng, 'ev, 'ind) estimator" where
  "make_evaluated_individuals E self =
     (case evaluated_individuals self of
        Some _ \<Rightarrow> Inr self
      | None \<Rightarrow>
          (case priv_evolver_instance self of
             None \<Rightarrow> Inl AttributeError
           | Some ev \<Rightarrow>
               Inr (self\<lparr>evaluated_individuals :=
                      Some (population_evaluated_individuals E ev)\<rparr>)))"

definition fit_search ::
  "('sc, 'scorer, 'f, 'rng, 'ev, 'ind) env \<Rightarrow> ('sc, 'scorer, 'f, 'rng, 'ev, 'ind) estimator
    \<Rightarrow> exn + ('sc, 'scorer, 'f, 'rng, 'ev, 'ind) estimator" where
  "fit_search E self =
     (let self1 = self\<lparr>evaluated_individuals := None\<rparr>;
          ev = (case priv_evolver_instance self1 of
                  None \<Rightarrow> new_evolver E (evolver_args_of self1)
                | Some old \<Rightarrow>
                    if warm_start (params self1) then old
                    else new_evolver E (evolver_args_of self1));
          (ev', rng') = optimize E ev (rng self1)
      in make_evaluated_individuals E
           (self1\<lparr>priv_evolver_instance := Some ev', rng := rng'\<rparr>))"

section \<open>tpot\_estimator/steady\_state\_estimator.py: \<open>fit\<close>, the final pipeline (lines 588-599 and 796-932)\<close>

text \<open>
  Lines 588-599 resolve the parameter \<open>validation_strategy\<close>: "auto" becomes
  "reshuffled" when the data \<open>X\<close> has fewer than 20 rows per column, "split" when it
  has fewer than 100, and "none" otherwise; any other value is kept. The quotient is
  Python's true division, which raises ZeroDivisionError on a table without columns;
  it is taken as the exact quotient here.
\<close>

definition resolve_validation_strategy :: "string \<Rightarrow> nat \<Rightarrow> nat \<Rightarrow> exn + string" where
  "resolve_validation_strategy strategy nrows ncols =
     (if strategy = ''auto'' then
        if ncols = 0 then Inl ZeroDivisionError
        else if real nrows / real ncols < 20 then Inr ''reshuffled''
        else if real nrows / real ncols < 100 then Inr ''split''
        else Inr ''none''
      else Inr strategy)"

text \<open>
  The columns the final pipeline is selected by (lines 796-897), from the parameter
  \<open>validation_strategy\<close>, the shape of \<open>X\<close> and the objective names: the validation
  columns when the resolved strategy is "reshuffled" or "split", the objective columns
  otherwise.
\<close>

definition objective_names_for_selection ::
  "string \<Rightarrow> nat \<Rightarrow> nat \<Rightarrow> string list \<Rightarrow> exn + string list" where
  "objective_names_for_selection strategy nrows ncols names =
     (case resolve_validation_strategy strategy nrows ncols of
        Inl e \<Rightarrow> Inl e
      | Inr resolved \<Rightarrow>
          if resolved = ''reshuffled'' \<or> resolved = ''split''
          then Inr (map (\<lambda>name. ''validation_'' @ name) names)
          else Inr names)"

text \<open>
  Line 899 keeps the rows none of whose selection columns is "TIMEOUT" or "INVALID"
  (\<open>isin\<close> is false on NaN) and converts their selection columns to floats. Only
  numbers and NaN reach the conversion. Line 900 multiplies each column by its weight;
  pandas raises ValueError unless there are as many weights as columns, and KeyError
  (line 899) when a selection column is missing.
\<close>

definition has_failure_marker :: "string list \<Rightarrow> 'ind row \<Rightarrow> bool" where
  "has_failure_marker names r =
     list_ex (\<lambda>c. cell_at r c = TIMEOUT \<or> cell_at r c = INVALID) names"

definition astype_float :: "cell \<Rightarrow> real option" where
  "astype_float c = (case c of Score x \<Rightarrow> Some x | _ \<Rightarrow> None)"

definition weighted_scores :: "string list \<Rightarrow> real list \<Rightarrow> 'ind row \<Rightarrow> real option list" where
  "weighted_scores names weights r =
     map2 (\<lambda>c w. map_option (\<lambda>x. x * w) (astype_float (cell_at r c))) names weights"

text \<open>
  \<open>sort_values\<close> orders the rows by the selection columns, the first column first,
  with NaN after every number in either direction. The key of a row puts a NaN after
  the numbers and negates the numbers when the order is descending. Rows with equal
  keys are kept in table order here, as pandas does with several selection columns;
  with one column pandas promises no order among them, and no property below depends
  on it.
\<close>

definition rank_key :: "bool \<Rightarrow> real option list \<Rightarrow> (bool \<times> real) list" where
  "rank_key ascending v =
     map (\<lambda>x. case x of None \<Rightarrow> (True, 0) | Some a \<Rightarrow> (False, if ascending then a else - a)) v"

definition best_indices :: "'ind frame \<Rightarrow> string list \<Rightarrow> real list \<Rightarrow> bool \<Rightarrow> exn + nat list" where
  "best_indices df names weights bigger =
     (if \<not> list_all (\<lambda>c. c \<in> set (columns df)) names then Inl KeyError
      else if length weights \<noteq> length names then Inl ValueError
      else Inr (sort_key (\<lambda>i. rank_key (\<not> bigger) (weighted_scores names weights (rows df ! i)))
                  (filter (\<lambda>i. \<not> has_failure_marker names (rows df ! i))
                     [0..<length (rows df)])))"

text \<open>
  The loop of lines 907-932. \<open>fit_ok\<close> tells whether fitting the pipeline exported
  from an individual on the full data returns; the pipeline is identified with the
  individual. Each round first stores the row and the pipeline, then tries the fit.
\<close>

record 'ind final =
  selected_best_score :: "nat option"
  fitted_pipeline_ :: "'ind option"
  fit_returned :: bool

fun refit_loop :: "('ind \<Rightarrow> bool) \<Rightarrow> 'ind frame \<Rightarrow> nat list \<Rightarrow> 'ind final \<Rightarrow> 'ind final" where
  "refit_loop fit_ok df [] st = st"
| "refit_loop fit_ok df (best_idx # rest) st =
     (let best_individual = Individual (rows df ! best_idx);
          st' = \<lparr>selected_best_score = Some best_idx,
                 fitted_pipeline_ = Some best_individual,
                 fit_returned = False\<rparr>
      in if fit_ok best_individual then st'\<lparr>fit_returned := True\<rparr>
         else refit_loop fit_ok df rest st')"

definition select_final_pipeline ::
  "('ind \<Rightarrow> bool) \<Rightarrow> 'ind frame \<Rightarrow> string list \<Rightarrow> real list \<Rightarrow> bool \<Rightarrow> exn + 'ind final" where
  "select_final_pipeline fit_ok df names weights bigger =
     (case best_indices df names weights bigger of
        Inl e \<Rightarrow> Inl e
      | Inr idxs \<Rightarrow>
          Inr (refit_loop fit_ok df idxs
                 \<lparr>selected_best_score = None, fitted_pipeline_ = None, fit_returned = False\<rparr>))"

text \<open>
  The order \<open>sort_values\<close> produces, written out on two weighted score vectors of the
  same length: \<open>ranked_before ascending u v\<close> holds when a row with vector \<open>u\<close>
  may stand before a row with vector \<open>v\<close>. The first column where they differ decides;
  a number stands before NaN; among numbers the smaller one stands first when the order
  is ascending, the bigger one when it is descending.
\<close>

fun ranked_before :: "bool \<Rightarrow> real option list \<Rightarrow> real option list \<Rightarrow> bool" where
  "ranked_before ascending (x # u) (y # v) =
     (case (x, y) of
        (None, None) \<Rightarrow> ranked_before ascending u v
      | (None, Some b) \<Rightarrow> False
      | (Some a, None) \<Rightarrow> True
      | (Some a, Some b) \<Rightarrow>
          (if ascending then a < b else b < a) \<or> (a = b \<and> ranked_before ascending u v))"
| "ranked_before ascending u v = True"

section \<open>\<open>fit\<close>, the Pareto frontier (line 794)\<close>





section \<open>The early-stop monitor of the evolver\<close>










section \<open>The budget controller of the evolver\<close>

text \<open>
  Modelled from the spec: the Budget/Threshold Controller (section 4.4), which is part
  of the evolver class of \<open>tpot.evolvers\<close> and not among the sources. The sources
  only hand \<open>budget_range\<close>, \<open>budget_scaling\<close>, \<open>individuals_until_end_budget\<close>
  and \<open>stepwise_steps\<close> to the evolver.

  The budget of the \<open>n\<close>-th submitted individual is
  \<open>start + (end - start) * f (n / individuals_until_end_budget)\<close>, clamped to the
  interval the two ends span. \<open>f\<close> is a staircase of \<open>stepwise_steps\<close> steps raised
  to a power; the power is read as \<open>budget_scaling\<close> itself, which makes a scaling
  below 1 approach the end budget sooner and a scaling above 1 later, as the spec says.
\<close>

definition staircase :: "nat \<Rightarrow> real \<Rightarrow> real" where
  "staircase steps x = of_int \<lfloor>x * real steps\<rfloor> / real steps"

definition clamp :: "real \<Rightarrow> real \<Rightarrow> real \<Rightarrow> real" where
  "clamp a b x = max (min a b) (min (max a b) x)"

definition progress :: "real \<Rightarrow> nat \<Rightarrow> nat \<Rightarrow> nat \<Rightarrow> real" where
  "progress scaling until_end steps n =
     staircase steps (real n / real until_end) powr scaling"

definition active_budget :: "real \<Rightarrow> real \<Rightarrow> real \<Rightarrow> nat \<Rightarrow> nat \<Rightarrow> nat \<Rightarrow> real" where
  "active_budget b_start b_end scaling until_end steps n =
     clamp b_start b_end (b_start + (b_end - b_start) * progress scaling until_end steps n)"

section \<open>Example inputs\<close>


text \<open>
  A table after the validation step of strategy "split": p0 was scored on the
  validation set; p1 timed out during the search, so it is not on the front, was not
  scored on the validation set, and its validation cell was never written.
\<close>

definition example_validation_table :: "string frame" where
  "example_validation_table =
     \<lparr>columns = [''accuracy'', ''validation_accuracy''],
      rows = [\<lparr>Individual = ''p0'',
               cells = [''accuracy'' \<mapsto> Score 2, ''validation_accuracy'' \<mapsto> Score 1]\<rparr>,
              \<lparr>Individual = ''p1'', cells = [''accuracy'' \<mapsto> TIMEOUT]\<rparr>]\<rparr>"

text \<open>A table of three evaluated individuals, the second of which timed out.\<close>

definition example_scores_table :: "string frame" where
  "example_scores_table =
     \<lparr>columns = [''accuracy''],
      rows = [\<lparr>Individual = ''a'', cells = [''accuracy'' \<mapsto> Score (1 / 2)]\<rparr>,
              \<lparr>Individual = ''b'', cells = [''accuracy'' \<mapsto> TIMEOUT]\<rparr>,
              \<lparr>Individual = ''c'', cells = [''accuracy'' \<mapsto> Score (3 / 4)]\<rparr>]\<rparr>"

text \<open>
  An environment: "accuracy" is the one known scorer, the objective function
  "partial" has no name, a negative seed is refused, a generator is a counter, an
  evolver is the list of the generator states it has drawn, one per call of
  \<open>optimize\<close>, and each of them is an evaluated individual.
\<close>

definition example_env :: "(string, string, string, int, int list, int) env" where
  "example_env =
     \<lparr>get_scorer = (\<lambda>s. if s = ''accuracy'' then Some s else None),
      scorer_name = (\<lambda>s. Some s),
      function_name = (\<lambda>f. if f = ''partial'' then None else Some f),
      default_rng =
        (\<lambda>seed. case seed of None \<Rightarrow> Some 0 | Some n \<Rightarrow> if n < 0 then None else Some n),
      new_evolver = (\<lambda>args. []),
      optimize = (\<lambda>ev r. (ev @ [r], r + 1)),
      population_evaluated_individuals =
        (\<lambda>ev. \<lparr>columns = [], rows = map (\<lambda>i. \<lparr>Individual = i, cells = Map.empty\<rparr>) ev\<rparr>)\<rparr>"

text \<open>The constructor's defaults, with one scorer of weight 1 and seed 42.\<close>

definition example_params :: "(string, string) params" where
  "example_params =
     \<lparr>scorers = OneScorer ''accuracy'',
      scorers_weights = [1],
      other_objective_functions = [],
      other_objective_functions_weights = [],
      objective_function_names = None,
      bigger_is_better = True,
      validation_strategy = ''none'',
      initial_population_size = Some 50,
      population_size = 50,
      max_evaluated_individuals = None,
      early_stop = None,
      early_stop_mins = None,
      scorers_early_stop_tol = Scalar (Some (1 / 1000)),
      other_objectives_early_stop_tol = Scalar None,
      crossover_probability = 2 / 10,
      mutate_probability = 7 / 10,
      mutate_then_crossover_probability = 5 / 100,
      crossover_then_mutate_probability = 5 / 100,
      budget_range = None,
      budget_scaling = 1 / 2,
      individuals_until_end_budget = 1,
      stepwise_steps = 5,
      warm_start = False,
      random_state = Some 42\<rparr>"

text \<open>
  Malformed arguments: the four probabilities sum to 2.2, one of them is negative, and
  there are three weights for one objective.
\<close>

definition malformed_params :: "(string, string) params" where
  "malformed_params =
     example_params
       \<lparr>other_objective_functions_weights := [1, 1],
        crossover_probability := 9 / 10,
        mutate_probability := 9 / 10,
        mutate_then_crossover_probability := - (1 / 2),
        crossover_then_mutate_probability := 9 / 10\<rparr>"

text \<open>The estimator the constructor returns on the example arguments.\<close>

definition example_estimator :: "(string, string, string, int, int list, int) estimator" where
  "example_estimator =
     \<lparr>params = example_params,
      rng = 42,
      priv_initial_population_size = 50,
      priv_scorers = [''accuracy''],
      objective_function_weights = [1],
      objective_names = [''accuracy''],
      early_stop_tol = [Some (1 / 1000)],
      priv_evolver_instance = None,
      evaluated_individuals = None\<rparr>"

text \<open>The example estimator after one \<open>fit\<close>.\<close>

definition fitted_estimator :: "(string, string, string, int, int list, int) estimator" where
  "fitted_estimator =
     example_estimator
       \<lparr>rng := 43,
        priv_evolver_instance := Some [42],
        evaluated_individuals :=
          Some \<lparr>columns = [], rows = [\<lparr>Individual = 42, cells = Map.empty\<rparr>]\<rparr>\<rparr>"






chapter \<open>The properties\<close>

section \<open>Passthrough and SkipTransformer\<close>

text \<open>
  C9. Passthrough is an identity transformer: \<open>transform\<close> returns its input,
  \<open>fit\<close> returns \<open>self\<close> as it was, and so fitting and then transforming with the
  fitted object gives back \<open>X\<close>.
\<close>

theorem Passthrough_identity:
  "Passthrough_transform self X = X
   \<and> Passthrough_fit self X0 y0 = self
   \<and> Passthrough_transform (Passthrough_fit self (Some X) y0) X = X"
  by (simp add: Passthrough_transform_def Passthrough_fit_def)

text \<open>
  C10. On a two-dimensional input, \<open>SkipTransformer.transform\<close> returns an array of
  shape \<open>(X.shape[0], 0)\<close>: as many rows as \<open>X\<close>, no column, no element. It does not
  raise there. \<open>SkipTransformer.fit\<close> returns \<open>self\<close> as it was.
\<close>

theorem SkipTransformer_empty_block:
  assumes "length (shape X) = 2"
  shows "SkipTransformer_transform self X = Inr \<lparr>shape = [shape X ! 0, 0], elems = []\<rparr>
         \<and> SkipTransformer_fit self X0 y0 = self"
proof -
  from assms obtain n m where s: "shape X = [n, m]"
    by (cases "shape X"; cases "tl (shape X)"; simp)
  show ?thesis
    by (simp add: SkipTransformer_transform_def shape0_def s reshape_def np_array_def
        SkipTransformer_fit_def)
qed

theorem SkipTransformer_empty_block_witness:
  "length (shape \<lparr>shape = [2, 3], elems = [1, 2, 3, 4, 5, 6 :: real]\<rparr>) = 2
   \<and> SkipTransformer_transform () \<lparr>shape = [2, 3], elems = [1, 2, 3, 4, 5, 6 :: real]\<rparr>
       = Inr \<lparr>shape = [2, 0], elems = []\<rparr>"
  using SkipTransformer_empty_block
    [of "\<lparr>shape = [2, 3], elems = [1, 2, 3, 4, 5, 6 :: real]\<rparr>" "()"]
  by simp

section \<open>The \<open>pareto_front\<close> property\<close>

lemma pareto_front_unset: "pareto_front None = None"
  by (simp add: pareto_front_def)



section \<open>Construction\<close>

text \<open>
  C4, as claimed, fails: the constructor checks neither the probabilities nor the
  number of weights. On the malformed arguments it returns an estimator.
\<close>

theorem init_accepts_malformed_params:
  "1 < crossover_probability malformed_params + mutate_probability malformed_params
         + mutate_then_crossover_probability malformed_params
         + crossover_then_mutate_probability malformed_params
   \<and> mutate_then_crossover_probability malformed_params < 0
   \<and> length (scorer_list (scorers malformed_params))
         + length (other_objective_functions malformed_params)
       \<noteq> length (scorers_weights malformed_params)
         + length (other_objective_functions_weights malformed_params)
   \<and> \<not> raises (TPOTEstimatorSteadyState_init example_env malformed_params)"
  by (simp add: malformed_params_def example_params_def example_env_def
      TPOTEstimatorSteadyState_init_def raises_def scorer_list_def)

text \<open>
  C4, amended. The constructor validates neither the variation-operator probabilities
  nor the number of weights: whether it raises does not depend on the four
  probabilities or on the two weight lists, and whenever it returns, the estimator
  holds the arguments as given, the four probabilities among them whatever their signs
  and their sum, and its \<open>objective_function_weights\<close> are the two weight lists
  concatenated, however many objectives there are.
\<close>

theorem init_checks_no_probability_or_weight:
  "raises (TPOTEstimatorSteadyState_init E
             (p\<lparr>scorers_weights := sw,
                other_objective_functions_weights := ow,
                crossover_probability := c,
                mutate_probability := m,
                mutate_then_crossover_probability := mc,
                crossover_then_mutate_probability := cm\<rparr>))
     = raises (TPOTEstimatorSteadyState_init E p)
   \<and> (TPOTEstimatorSteadyState_init E p = Inr self \<longrightarrow>
        params self = p
        \<and> objective_function_weights self =
            scorers_weights p @ other_objective_functions_weights p)"
  by (auto simp: TPOTEstimatorSteadyState_init_def raises_def
      split: option.splits sum.splits)

text \<open>
  On the example: the constructor returns the example estimator on the example
  arguments, and it raises on a negative seed and on a nameless objective function
  whatever the probabilities and weights are.
\<close>

theorem init_checks_no_probability_or_weight_witness:
  "TPOTEstimatorSteadyState_init example_env example_params = Inr example_estimator
   \<and> params example_estimator = example_params
   \<and> objective_function_weights example_estimator = [1]
   \<and> \<not> raises (TPOTEstimatorSteadyState_init example_env
                 (example_params
                    \<lparr>scorers_weights := [], other_objective_functions_weights := [1, 1],
                     crossover_probability := 2, mutate_probability := 2,
                     mutate_then_crossover_probability := - 1,
                     crossover_then_mutate_probability := 2\<rparr>))
   \<and> raises (TPOTEstimatorSteadyState_init example_env
               (example_params\<lparr>random_state := Some (- 1)\<rparr>))
   \<and> raises (TPOTEstimatorSteadyState_init example_env
               (example_params\<lparr>other_objective_functions := [''partial'']\<rparr>))"
proof -
  have 1: "TPOTEstimatorSteadyState_init example_env example_params = Inr example_estimator"
    by (simp add: TPOTEstimatorSteadyState_init_def tol_list_def example_estimator_def
        example_env_def example_params_def scorer_list_def)
  note t = init_checks_no_probability_or_weight
    [where E = example_env and p = example_params and self = example_estimator]
  from t 1 have 2: "params example_estimator = example_params"
    "objective_function_weights example_estimator = [1]"
    by (simp_all add: example_params_def)
  from t [where sw = "[]" and ow = "[1, 1]" and c = 2 and m = 2 and mc = "- 1" and cm = 2] 1
  have 3: "\<not> raises (TPOTEstimatorSteadyState_init example_env
                 (example_params
                    \<lparr>scorers_weights := [], other_objective_functions_weights := [1, 1],
                     crossover_probability := 2, mutate_probability := 2,
                     mutate_then_crossover_probability := - 1,
                     crossover_then_mutate_probability := 2\<rparr>))"
    by (simp add: raises_def)
  have 4: "raises (TPOTEstimatorSteadyState_init example_env
               (example_params\<lparr>random_state := Some (- 1)\<rparr>))"
    "raises (TPOTEstimatorSteadyState_init example_env
               (example_params\<lparr>other_objective_functions := [''partial'']\<rparr>))"
    by (simp_all add: TPOTEstimatorSteadyState_init_def raises_def example_env_def
        example_params_def scorer_list_def)
  from 1 2 3 4 show ?thesis by simp
qed

section \<open>The final pipeline\<close>

lemma rank_key_le:
  "length u = length v \<Longrightarrow> (rank_key asc u \<le> rank_key asc v) = ranked_before asc u v"
proof (induction u v rule: list_induct2)
  case Nil
  then show ?case by (simp add: rank_key_def)
next
  case (Cons x xs y ys)
  then show ?case
    by (cases x; cases y) (auto simp: rank_key_def)
qed

lemma length_weighted_scores:
  "length (weighted_scores names weights r) = min (length names) (length weights)"
  by (simp add: weighted_scores_def)

lemma best_indices_sorted:
  assumes "best_indices df names weights bigger = Inr idxs" "p < q" "q < length idxs"
  shows "ranked_before (\<not> bigger) (weighted_scores names weights (rows df ! (idxs ! p)))
           (weighted_scores names weights (rows df ! (idxs ! q)))"
proof -
  let ?k = "\<lambda>i. rank_key (\<not> bigger) (weighted_scores names weights (rows df ! i))"
  from assms(1) have "sorted (map ?k idxs)"
    by (auto simp: best_indices_def split: if_splits)
  with assms(2,3) have "?k (idxs ! p) \<le> ?k (idxs ! q)"
    by (simp add: sorted_iff_nth_mono)
  then show ?thesis
    by (simp add: rank_key_le length_weighted_scores)
qed

lemma best_indices_set:
  assumes "best_indices df names weights bigger = Inr idxs"
  shows "set idxs = {i. i < length (rows df) \<and> \<not> has_failure_marker names (rows df ! i)}"
  using assms by (auto simp: best_indices_def split: if_splits)

lemma best_indices_weights:
  assumes "best_indices df names weights bigger = Inr idxs"
  shows "length weights = length names"
  using assms by (auto simp: best_indices_def split: if_splits)

lemma refit_loop_first_success:
  assumes "\<forall>j\<in>set pre. \<not> fit_ok (Individual (rows df ! j))"
    and "fit_ok (Individual (rows df ! i))"
  shows "refit_loop fit_ok df (pre @ i # post) st =
           \<lparr>selected_best_score = Some i, fitted_pipeline_ = Some (Individual (rows df ! i)),
            fit_returned = True\<rparr>"
  using assms by (induction pre arbitrary: st) (simp_all add: Let_def)

lemma refit_loop_selected:
  "selected_best_score (refit_loop fit_ok df idxs st) = Some i \<Longrightarrow>
     i \<in> set idxs \<or> selected_best_score st = Some i"
proof (induction idxs arbitrary: st)
  case Nil
  then show ?case by simp
next
  case (Cons a idxs)
  let ?st' = "\<lparr>selected_best_score = Some a,
               fitted_pipeline_ = Some (Individual (rows df ! a)), fit_returned = False\<rparr>"
  show ?case
  proof (cases "fit_ok (Individual (rows df ! a))")
    case True
    with Cons.prems show ?thesis by (simp add: Let_def)
  next
    case False
    with Cons.prems
    have "selected_best_score (refit_loop fit_ok df idxs ?st') = Some i"
      by (simp add: Let_def)
    from Cons.IH [OF this] show ?thesis by auto
  qed
qed

lemma best_indices_example_validation:
  "best_indices example_validation_table [''validation_accuracy''] [1] True = Inr [0, 1]"
  by (simp add: best_indices_def example_validation_table_def
      has_failure_marker_def cell_at_def
      weighted_scores_def rank_key_def astype_float_def upt_rec)

lemma best_indices_example_scores:
  "best_indices example_scores_table [''accuracy''] [1] True = Inr [2, 0]"
  by (simp add: best_indices_def example_scores_table_def has_failure_marker_def cell_at_def
      weighted_scores_def rank_key_def astype_float_def upt_rec)

lemma selection_names_objective:
  assumes "objective_names_for_selection strategy nrows ncols names = Inr sel"
    and "strategy \<noteq> ''reshuffled''" "strategy \<noteq> ''split''"
    and "strategy = ''auto'' \<longrightarrow> 100 * ncols \<le> nrows"
  shows "sel = names"
proof (cases "strategy = ''auto''")
  case False
  with assms(1,2,3) show ?thesis
    by (simp add: objective_names_for_selection_def resolve_validation_strategy_def)
next
  case True
  with assms(1) have pos: "ncols \<noteq> 0"
    by (auto simp: objective_names_for_selection_def resolve_validation_strategy_def
        split: if_splits)
  from True assms(4) have "real (100 * ncols) \<le> real nrows"
    using of_nat_le_iff by blast
  with pos have "100 \<le> real nrows / real ncols"
    by (simp add: le_divide_eq)
  with True pos assms(1) show ?thesis
    by (simp add: objective_names_for_selection_def resolve_validation_strategy_def)
qed

text \<open>
  C2, as claimed, fails under the validation strategies. There the rows are filtered
  and ranked by the validation columns, and a row that was never scored on the
  validation set has NaN in them, which is no failure marker. On the example table,
  with strategy "split" (or "auto" on data of 1000 rows and 20 columns), individual p0
  has no marker in any column, individual p1 has TIMEOUT in the objective column, and
  yet p1 is a candidate of the ranking; when the fit of p0 fails on the full data and
  the fit of p1 returns, p1 is the final pipeline.
\<close>

theorem final_selection_picks_timed_out_row:
  "\<not> has_failure_marker [''accuracy'', ''validation_accuracy'']
        (rows example_validation_table ! 0)
   \<and> cell_at (rows example_validation_table ! 1) ''accuracy'' = TIMEOUT
   \<and> objective_names_for_selection ''split'' 1000 20 [''accuracy'']
        = Inr [''validation_accuracy'']
   \<and> objective_names_for_selection ''auto'' 1000 20 [''accuracy'']
        = Inr [''validation_accuracy'']
   \<and> best_indices example_validation_table [''validation_accuracy''] [1] True = Inr [0, 1]
   \<and> select_final_pipeline (\<lambda>ind. ind = ''p1'') example_validation_table
        [''validation_accuracy''] [1] True
      = Inr \<lparr>selected_best_score = Some 1, fitted_pipeline_ = Some ''p1'',
             fit_returned = True\<rparr>"
proof -
  have "select_final_pipeline (\<lambda>ind. ind = ''p1'') example_validation_table
        [''validation_accuracy''] [1] True
      = Inr \<lparr>selected_best_score = Some 1, fitted_pipeline_ = Some ''p1'',
             fit_returned = True\<rparr>"
    unfolding select_final_pipeline_def best_indices_example_validation
    by (simp add: example_validation_table_def)
  moreover have "\<not> has_failure_marker [''accuracy'', ''validation_accuracy'']
        (rows example_validation_table ! 0)"
    by (simp add: has_failure_marker_def example_validation_table_def cell_at_def)
  moreover have "cell_at (rows example_validation_table ! 1) ''accuracy'' = TIMEOUT"
    by (simp add: example_validation_table_def cell_at_def)
  moreover have "objective_names_for_selection ''split'' 1000 20 [''accuracy'']
        = Inr [''validation_accuracy'']"
    "objective_names_for_selection ''auto'' 1000 20 [''accuracy'']
        = Inr [''validation_accuracy'']"
    by (simp_all add: objective_names_for_selection_def resolve_validation_strategy_def)
  ultimately show ?thesis
    using best_indices_example_validation by simp
qed

text \<open>
  C2, amended. Whenever the ranking of lines 899-905 is computed, each of its
  candidates is a row of the table with no TIMEOUT and no INVALID in any of the columns
  the selection ranks by, and the row the loop leaves in \<open>selected_best_score\<close> is
  one of the candidates. The columns ranked by are the objective columns when the
  parameter \<open>validation_strategy\<close> is neither "reshuffled" nor "split" nor an "auto"
  that resolves to one of them (fewer than 100 rows per column); there, and so under
  the default "none", no candidate has a marker in an objective column.
\<close>

theorem final_selection_excludes_marked_rows:
  assumes "objective_names_for_selection strategy nrows ncols names = Inr sel"
    and "best_indices df sel weights bigger = Inr idxs"
  shows "(\<forall>i\<in>set idxs. i < length (rows df) \<and> \<not> has_failure_marker sel (rows df ! i))
       \<and> (\<forall>st i. select_final_pipeline fit_ok df sel weights bigger = Inr st
                 \<and> selected_best_score st = Some i \<longrightarrow> i \<in> set idxs)
       \<and> (strategy \<noteq> ''reshuffled'' \<and> strategy \<noteq> ''split''
           \<and> (strategy = ''auto'' \<longrightarrow> 100 * ncols \<le> nrows) \<longrightarrow>
            (\<forall>i\<in>set idxs. \<not> has_failure_marker names (rows df ! i)))"
proof (intro conjI allI impI)
  note set = best_indices_set [OF assms(2)]
  show "\<forall>i\<in>set idxs. i < length (rows df) \<and> \<not> has_failure_marker sel (rows df ! i)"
    by (simp add: set)
  show "i \<in> set idxs"
    if "select_final_pipeline fit_ok df sel weights bigger = Inr st
        \<and> selected_best_score st = Some i" for st i
  proof -
    from that assms(2) have
      "selected_best_score
         (refit_loop fit_ok df idxs
            \<lparr>selected_best_score = None, fitted_pipeline_ = None, fit_returned = False\<rparr>)
        = Some i"
      by (auto simp: select_final_pipeline_def)
    from refit_loop_selected [OF this] show ?thesis by simp
  qed
  show "\<forall>i\<in>set idxs. \<not> has_failure_marker names (rows df ! i)"
    if "strategy \<noteq> ''reshuffled'' \<and> strategy \<noteq> ''split''
        \<and> (strategy = ''auto'' \<longrightarrow> 100 * ncols \<le> nrows)"
  proof -
    from that have "sel = names"
      by (intro selection_names_objective [OF assms(1)]) simp_all
    then show ?thesis by (simp add: set)
  qed
qed

text \<open>
  On the example table of three individuals, under "none" and under "auto" on data of
  1000 rows and 5 columns, the candidates are c and a; b, which timed out, is none.
\<close>

theorem final_selection_excludes_marked_rows_witness:
  "objective_names_for_selection ''none'' 1000 5 [''accuracy''] = Inr [''accuracy'']
   \<and> objective_names_for_selection ''auto'' 1000 5 [''accuracy''] = Inr [''accuracy'']
   \<and> best_indices example_scores_table [''accuracy''] [1] True = Inr [2, 0]
   \<and> has_failure_marker [''accuracy''] (rows example_scores_table ! 1)
   \<and> \<not> has_failure_marker [''accuracy''] (rows example_scores_table ! 2)
   \<and> \<not> has_failure_marker [''accuracy''] (rows example_scores_table ! 0)"
proof -
  have n: "objective_names_for_selection ''none'' 1000 5 [''accuracy''] = Inr [''accuracy'']"
    and a: "objective_names_for_selection ''auto'' 1000 5 [''accuracy''] = Inr [''accuracy'']"
    by (simp_all add: objective_names_for_selection_def resolve_validation_strategy_def)
  note h = best_indices_example_scores
  have m: "has_failure_marker [''accuracy''] (rows example_scores_table ! 1)"
    by (simp add: has_failure_marker_def example_scores_table_def cell_at_def)
  from final_selection_excludes_marked_rows [OF a h]
  have "\<not> has_failure_marker [''accuracy''] (rows example_scores_table ! 2)"
    "\<not> has_failure_marker [''accuracy''] (rows example_scores_table ! 0)"
    by simp_all
  with n a h m show ?thesis by simp
qed

text \<open>
  C3. Whenever the ranking is computed,
  \<^item> the vector a candidate is ranked by holds each selection score multiplied by the
    weight of its column;
  \<^item> the candidates stand in descending order of that vector when \<open>bigger_is_better\<close>
    is set and in ascending order otherwise, the first column first;
  \<^item> when the fit of every candidate before candidate \<open>i\<close> raises and the fit of \<open>i\<close>
    returns, the loop ends with the pipeline of \<open>i\<close> as \<open>fitted_pipeline_\<close>, fitted,
    and row \<open>i\<close> as \<open>selected_best_score\<close>.
\<close>

theorem final_refit_ordered_fallback:
  assumes "best_indices df names weights bigger = Inr idxs"
  shows "(\<forall>k r. k < length names \<longrightarrow>
            weighted_scores names weights r ! k =
              map_option (\<lambda>x. x * weights ! k) (astype_float (cell_at r (names ! k))))
       \<and> (\<forall>p q. p < q \<and> q < length idxs \<longrightarrow>
            ranked_before (\<not> bigger)
              (weighted_scores names weights (rows df ! (idxs ! p)))
              (weighted_scores names weights (rows df ! (idxs ! q))))
       \<and> (\<forall>pre i post.
            idxs = pre @ i # post
            \<and> (\<forall>j\<in>set pre. \<not> fit_ok (Individual (rows df ! j)))
            \<and> fit_ok (Individual (rows df ! i)) \<longrightarrow>
            select_final_pipeline fit_ok df names weights bigger =
              Inr \<lparr>selected_best_score = Some i,
                   fitted_pipeline_ = Some (Individual (rows df ! i)),
                   fit_returned = True\<rparr>)"
proof (intro conjI allI impI)
  show "weighted_scores names weights r ! k =
          map_option (\<lambda>x. x * weights ! k) (astype_float (cell_at r (names ! k)))"
    if "k < length names" for k r
    using that best_indices_weights [OF assms] by (simp add: weighted_scores_def)
  show "ranked_before (\<not> bigger)
          (weighted_scores names weights (rows df ! (idxs ! p)))
          (weighted_scores names weights (rows df ! (idxs ! q)))"
    if "p < q \<and> q < length idxs" for p q
    using that by (intro best_indices_sorted [OF assms]) simp_all
  show "select_final_pipeline fit_ok df names weights bigger =
          Inr \<lparr>selected_best_score = Some i,
               fitted_pipeline_ = Some (Individual (rows df ! i)),
               fit_returned = True\<rparr>"
    if "idxs = pre @ i # post
        \<and> (\<forall>j\<in>set pre. \<not> fit_ok (Individual (rows df ! j)))
        \<and> fit_ok (Individual (rows df ! i))" for pre i post
    using that assms by (simp add: select_final_pipeline_def refit_loop_first_success)
qed

text \<open>
  On the example table the candidates are c (0.75) and a (0.5), in this order; the fit
  of c raises and the fit of a returns, so a is the final pipeline.
\<close>

theorem final_refit_ordered_fallback_witness:
  "best_indices example_scores_table [''accuracy''] [1] True = Inr [2, 0]
   \<and> \<not> (\<lambda>ind. ind = ''a'') (Individual (rows example_scores_table ! 2))
   \<and> (\<lambda>ind. ind = ''a'') (Individual (rows example_scores_table ! 0))
   \<and> select_final_pipeline (\<lambda>ind. ind = ''a'') example_scores_table [''accuracy''] [1] True =
       Inr \<lparr>selected_best_score = Some 0, fitted_pipeline_ = Some ''a'', fit_returned = True\<rparr>
   \<and> ranked_before False
       (weighted_scores [''accuracy''] [1] (rows example_scores_table ! 2))
       (weighted_scores [''accuracy''] [1] (rows example_scores_table ! 0))"
proof -
  note h = best_indices_example_scores
  note t = final_refit_ordered_fallback [OF h, of "\<lambda>ind. ind = ''a''"]
  have c: "\<not> (\<lambda>ind. ind = ''a'') (Individual (rows example_scores_table ! 2))"
    "(\<lambda>ind. ind = ''a'') (Individual (rows example_scores_table ! 0))"
    by (simp_all add: example_scores_table_def)
  note fallback = t [THEN conjunct2, THEN conjunct2, rule_format, of "[2]" 0 "[]"]
  note order = t [THEN conjunct2, THEN conjunct1, rule_format, of 0 1]
  from fallback c have 1: "select_final_pipeline (\<lambda>ind. ind = ''a'') example_scores_table
        [''accuracy''] [1] True =
       Inr \<lparr>selected_best_score = Some 0, fitted_pipeline_ = Some ''a'', fit_returned = True\<rparr>"
    by (simp add: example_scores_table_def)
  from order have 2: "ranked_before False
       (weighted_scores [''accuracy''] [1] (rows example_scores_table ! 2))
       (weighted_scores [''accuracy''] [1] (rows example_scores_table ! 0))"
    by simp
  from h c 1 2 show ?thesis by simp
qed

section \<open>Re-invoking \<open>fit\<close>\<close>

lemma fit_search_unfolded:
  "fit_search E self =
     (let ev = (case priv_evolver_instance self of
                  None \<Rightarrow> new_evolver E (evolver_args_of self)
                | Some old \<Rightarrow>
                    if warm_start (params self) then old
                    else new_evolver E (evolver_args_of self));
          r = optimize E ev (rng self)
      in Inr (self\<lparr>priv_evolver_instance := Some (fst r), rng := snd r,
                   evaluated_individuals :=
                     Some (population_evaluated_individuals E (fst r))\<rparr>))"
  by (simp add: fit_search_def make_evaluated_individuals_def Let_def evolver_args_of_def
      split: prod.splits option.splits)

text \<open>
  C7. \<open>fit\<close> never raises in the modelled part, and
  \<^item> with \<open>warm_start\<close> set and an evolver instance present, \<open>optimize\<close> runs on that
    instance, which stays the estimator's evolver, and the table is the one that
    instance holds afterwards;
  \<^item> otherwise a new evolver is constructed from the estimator's current settings,
    \<open>optimize\<close> runs on it, and the table is the new evolver's;
  \<^item> without \<open>warm_start\<close> the outcome does not depend on the evolver instance and the
    table an earlier \<open>fit\<close> left behind: nothing of the previous run is accumulated.
  How \<open>optimize\<close> extends the table of the instance it runs on is the evolver's part.
  In both cases the run draws from the estimator's one generator as the earlier calls
  left it.
\<close>

theorem fit_search_reuses_evolver_only_on_warm_start:
  "(warm_start (params self) \<and> priv_evolver_instance self = Some old \<longrightarrow>
      fit_search E self =
        Inr (self\<lparr>priv_evolver_instance := Some (fst (optimize E old (rng self))),
                  rng := snd (optimize E old (rng self)),
                  evaluated_individuals :=
                    Some (population_evaluated_individuals E
                            (fst (optimize E old (rng self))))\<rparr>))
   \<and> (\<not> (warm_start (params self) \<and> priv_evolver_instance self \<noteq> None) \<longrightarrow>
      fit_search E self =
        Inr (self\<lparr>priv_evolver_instance :=
                    Some (fst (optimize E (new_evolver E (evolver_args_of self)) (rng self))),
                  rng := snd (optimize E (new_evolver E (evolver_args_of self)) (rng self)),
                  evaluated_individuals :=
                    Some (population_evaluated_individuals E
                            (fst (optimize E (new_evolver E (evolver_args_of self))
                                    (rng self))))\<rparr>))
   \<and> (\<not> warm_start (params self) \<longrightarrow>
      fit_search E (self\<lparr>priv_evolver_instance := inst, evaluated_individuals := tbl\<rparr>)
        = fit_search E self)"
proof (intro conjI impI)
  assume "warm_start (params self) \<and> priv_evolver_instance self = Some old"
  then show "fit_search E self =
        Inr (self\<lparr>priv_evolver_instance := Some (fst (optimize E old (rng self))),
                  rng := snd (optimize E old (rng self)),
                  evaluated_individuals :=
                    Some (population_evaluated_individuals E
                            (fst (optimize E old (rng self))))\<rparr>)"
    by (simp add: fit_search_unfolded Let_def)
next
  assume "\<not> (warm_start (params self) \<and> priv_evolver_instance self \<noteq> None)"
  then show "fit_search E self =
        Inr (self\<lparr>priv_evolver_instance :=
                    Some (fst (optimize E (new_evolver E (evolver_args_of self)) (rng self))),
                  rng := snd (optimize E (new_evolver E (evolver_args_of self)) (rng self)),
                  evaluated_individuals :=
                    Some (population_evaluated_individuals E
                            (fst (optimize E (new_evolver E (evolver_args_of self))
                                    (rng self))))\<rparr>)"
    by (auto simp: fit_search_unfolded Let_def split: option.splits)
next
  assume "\<not> warm_start (params self)"
  then show "fit_search E (self\<lparr>priv_evolver_instance := inst, evaluated_individuals := tbl\<rparr>)
        = fit_search E self"
    by (simp add: fit_search_unfolded Let_def evolver_args_of_def split: option.splits)
qed

text \<open>
  On the example: the first \<open>fit\<close> constructs an evolver; a second \<open>fit\<close> without
  \<open>warm_start\<close> gives an evolver and a table that hold the second run only; with
  \<open>warm_start\<close> it gives the first evolver, extended by the second run.
\<close>

theorem fit_search_reuses_evolver_only_on_warm_start_witness:
  "\<not> warm_start (params fitted_estimator)
   \<and> fit_search example_env example_estimator = Inr fitted_estimator
   \<and> fit_search example_env fitted_estimator =
       Inr (fitted_estimator
             \<lparr>priv_evolver_instance := Some [43], rng := 44,
              evaluated_individuals :=
                Some \<lparr>columns = [], rows = [\<lparr>Individual = 43, cells = Map.empty\<rparr>]\<rparr>\<rparr>)
   \<and> warm_start (params (fitted_estimator\<lparr>params := example_params\<lparr>warm_start := True\<rparr>\<rparr>))
   \<and> priv_evolver_instance (fitted_estimator\<lparr>params := example_params\<lparr>warm_start := True\<rparr>\<rparr>)
       = Some [42]
   \<and> fit_search example_env (fitted_estimator\<lparr>params := example_params\<lparr>warm_start := True\<rparr>\<rparr>) =
       Inr (fitted_estimator
             \<lparr>params := example_params\<lparr>warm_start := True\<rparr>,
              priv_evolver_instance := Some [42, 43], rng := 44,
              evaluated_individuals :=
                Some \<lparr>columns = [],
                      rows = [\<lparr>Individual = 42, cells = Map.empty\<rparr>,
                              \<lparr>Individual = 43, cells = Map.empty\<rparr>]\<rparr>\<rparr>)"
proof -
  have cold: "\<not> warm_start (params fitted_estimator)"
    "\<not> (warm_start (params example_estimator)
        \<and> priv_evolver_instance example_estimator \<noteq> None)"
    "\<not> (warm_start (params fitted_estimator)
        \<and> priv_evolver_instance fitted_estimator \<noteq> None)"
    by (simp_all add: fitted_estimator_def example_estimator_def example_params_def)
  have warm: "warm_start (params (fitted_estimator\<lparr>params := example_params\<lparr>warm_start := True\<rparr>\<rparr>))
      \<and> priv_evolver_instance (fitted_estimator\<lparr>params := example_params\<lparr>warm_start := True\<rparr>\<rparr>)
          = Some [42]"
    by (simp add: fitted_estimator_def)
  note t = fit_search_reuses_evolver_only_on_warm_start
  from t [of example_estimator _ example_env] cold(2)
  have 1: "fit_search example_env example_estimator = Inr fitted_estimator"
    by (simp add: fitted_estimator_def example_env_def example_estimator_def)
  from t [of fitted_estimator _ example_env] cold(3)
  have 2: "fit_search example_env fitted_estimator =
       Inr (fitted_estimator
             \<lparr>priv_evolver_instance := Some [43], rng := 44,
              evaluated_individuals :=
                Some \<lparr>columns = [], rows = [\<lparr>Individual = 43, cells = Map.empty\<rparr>]\<rparr>\<rparr>)"
    by (simp add: fitted_estimator_def example_env_def example_estimator_def)
  from t [of "fitted_estimator\<lparr>params := example_params\<lparr>warm_start := True\<rparr>\<rparr>" "[42]"
      example_env] warm
  have 3: "fit_search example_env (fitted_estimator\<lparr>params := example_params\<lparr>warm_start := True\<rparr>\<rparr>) =
       Inr (fitted_estimator
             \<lparr>params := example_params\<lparr>warm_start := True\<rparr>,
              priv_evolver_instance := Some [42, 43], rng := 44,
              evaluated_individuals :=
                Some \<lparr>columns = [],
                      rows = [\<lparr>Individual = 42, cells = Map.empty\<rparr>,
                              \<lparr>Individual = 43, cells = Map.empty\<rparr>]\<rparr>\<rparr>)"
    by (simp add: fitted_estimator_def example_env_def example_estimator_def)
  from cold(1) warm 1 2 3 show ?thesis by blast
qed

section \<open>Early stopping\<close>









section \<open>The budget schedule\<close>

lemma staircase_mono: "x \<le> y \<Longrightarrow> staircase steps x \<le> staircase steps y"
  unfolding staircase_def
  by (intro divide_right_mono of_int_le_iff[THEN iffD2] floor_mono mult_right_mono) simp_all

lemma staircase_nonneg: "0 \<le> x \<Longrightarrow> 0 \<le> staircase steps x"
  unfolding staircase_def by (intro divide_nonneg_nonneg) simp_all

lemma staircase_ge_1:
  assumes "0 < steps" "1 \<le> x"
  shows "1 \<le> staircase steps x"
proof -
  have "real steps \<le> x * real steps" using assms by simp
  then have "int steps \<le> \<lfloor>x * real steps\<rfloor>" by (simp add: le_floor_iff)
  then have "real steps \<le> of_int \<lfloor>x * real steps\<rfloor>"
    by (metis of_int_le_iff of_int_of_nat_eq)
  with assms(1) show ?thesis by (simp add: staircase_def)
qed

lemma progress_mono:
  assumes "0 \<le> scaling" "n \<le> m"
  shows "progress scaling until_end steps n \<le> progress scaling until_end steps m"
  unfolding progress_def
proof (rule powr_mono2)
  show "0 \<le> scaling" by fact
  show "0 \<le> staircase steps (real n / real until_end)"
    by (intro staircase_nonneg) simp
  show "staircase steps (real n / real until_end) \<le> staircase steps (real m / real until_end)"
    using assms(2) by (intro staircase_mono divide_right_mono) simp_all
qed

lemma progress_ge_1:
  assumes "0 \<le> scaling" "0 < until_end" "0 < steps" "until_end \<le> n"
  shows "1 \<le> progress scaling until_end steps n"
proof -
  have "1 \<le> real n / real until_end" using assms(2,4) by simp
  then have "1 \<le> staircase steps (real n / real until_end)"
    using assms(3) by (intro staircase_ge_1)
  then show ?thesis
    unfolding progress_def using assms(1) by (intro ge_one_powr_ge_zero)
qed

lemma clamp_bounds: "min a b \<le> clamp a b x \<and> clamp a b x \<le> max a b"
  by (auto simp: clamp_def)

lemma clamp_mono: "x \<le> y \<Longrightarrow> clamp a b x \<le> clamp a b y"
  by (auto simp: clamp_def)

text \<open>
  C6. With a positive \<open>individuals_until_end_budget\<close>, a positive number of steps
  and a positive scaling, the budget as a function of the number \<open>n\<close> of submitted
  individuals
  \<^item> does not decrease when the start budget is at most the end budget, and does not
    increase otherwise;
  \<^item> lies between the two ends;
  \<^item> is the end budget for every \<open>n\<close> from \<open>individuals_until_end_budget\<close> on.
\<close>

theorem active_budget_schedule:
  assumes "0 < until_end" "0 < steps" "0 < scaling"
  shows "(n \<le> m \<longrightarrow>
            (if b_start \<le> b_end
             then active_budget b_start b_end scaling until_end steps n
                    \<le> active_budget b_start b_end scaling until_end steps m
             else active_budget b_start b_end scaling until_end steps m
                    \<le> active_budget b_start b_end scaling until_end steps n))
       \<and> min b_start b_end \<le> active_budget b_start b_end scaling until_end steps n
       \<and> active_budget b_start b_end scaling until_end steps n \<le> max b_start b_end
       \<and> (until_end \<le> n \<longrightarrow>
            active_budget b_start b_end scaling until_end steps n = b_end)"
proof (intro conjI impI)
  let ?g = "progress scaling until_end steps"
  have ab: "active_budget b_start b_end scaling until_end steps k =
              clamp b_start b_end (b_start + (b_end - b_start) * ?g k)" for k
    by (simp add: active_budget_def)
  show "min b_start b_end \<le> active_budget b_start b_end scaling until_end steps n"
    and "active_budget b_start b_end scaling until_end steps n \<le> max b_start b_end"
    by (simp_all add: ab clamp_bounds)
  {
    assume nm: "n \<le> m"
    then have g: "?g n \<le> ?g m" using assms(3) by (intro progress_mono) simp_all
    show "if b_start \<le> b_end
          then active_budget b_start b_end scaling until_end steps n
                 \<le> active_budget b_start b_end scaling until_end steps m
          else active_budget b_start b_end scaling until_end steps m
                 \<le> active_budget b_start b_end scaling until_end steps n"
    proof (cases "b_start \<le> b_end")
      case True
      then have "(b_end - b_start) * ?g n \<le> (b_end - b_start) * ?g m"
        using g by (intro mult_left_mono) simp_all
      with True show ?thesis by (simp add: ab clamp_mono)
    next
      case False
      then have "(b_end - b_start) * ?g m \<le> (b_end - b_start) * ?g n"
        using g by (intro mult_left_mono_neg) simp_all
      with False show ?thesis by (simp add: ab clamp_mono)
    qed
  }
  {
    assume "until_end \<le> n"
    then have g1: "1 \<le> ?g n" using assms by (intro progress_ge_1) simp_all
    show "active_budget b_start b_end scaling until_end steps n = b_end"
    proof (cases "b_start \<le> b_end")
      case True
      with g1 have "(b_end - b_start) * 1 \<le> (b_end - b_start) * ?g n"
        by (intro mult_left_mono) simp_all
      then have "b_end \<le> b_start + (b_end - b_start) * ?g n" by simp
      with True show ?thesis unfolding ab clamp_def by auto
    next
      case False
      with g1 have "(b_end - b_start) * ?g n \<le> (b_end - b_start) * 1"
        by (intro mult_left_mono_neg) simp_all
      then have "b_start + (b_end - b_start) * ?g n \<le> b_end" by simp
      with False show ?thesis unfolding ab clamp_def by auto
    qed
  }
qed

text \<open>
  On a schedule from budget 1 to budget 10 over 100 individuals in 5 steps with
  scaling 0.5: the budget of individual 30 is at most that of individual 70, both lie
  between 1 and 10, and individuals 100 and 250 get budget 10.
\<close>

theorem active_budget_schedule_witness:
  "(0::nat) < 100 \<and> (0::nat) < 5 \<and> (0::real) < 1 / 2 \<and> (30::nat) \<le> 70
   \<and> (100::nat) \<le> 250
   \<and> active_budget 1 10 (1 / 2) 100 5 30 \<le> active_budget 1 10 (1 / 2) 100 5 70
   \<and> 1 \<le> active_budget 1 10 (1 / 2) 100 5 30
   \<and> active_budget 1 10 (1 / 2) 100 5 70 \<le> 10
   \<and> active_budget 1 10 (1 / 2) 100 5 100 = 10
   \<and> active_budget 1 10 (1 / 2) 100 5 250 = 10"
proof -
  have h: "(0::nat) < 100" "(0::nat) < 5" "(0::real) < 1 / 2" by simp_all
  note t = active_budget_schedule [OF h, where b_start = 1 and b_end = 10]
  from t [of 30 70] have 1:
    "active_budget 1 10 (1 / 2) 100 5 30 \<le> active_budget 1 10 (1 / 2) 100 5 70"
    "1 \<le> active_budget 1 10 (1 / 2) 100 5 30"
    by simp_all
  from t [of 70 70] have 2: "active_budget 1 10 (1 / 2) 100 5 70 \<le> 10"
    by simp
  from t [of 100 100] have 3: "active_budget 1 10 (1 / 2) 100 5 100 = 10"
    by simp
  from t [of 250 250] have 4: "active_budget 1 10 (1 / 2) 100 5 250 = 10"
    by simp
  from 1 2 3 4 show ?thesis by simp
qed

end
